theory Spec2Isabelle
  imports Complex_Main "HOL-Library.Sublist"
begin

section \<open>The forecasting path of \<open>Group01\<close> (src/Functions/group01.py)\<close>

text \<open>
  The method \<open>Group01.predictor\<close> validates a requested list of country names, selects
  the rows of each requested country from the data frame \<open>self.df\<close>, fits an
  ARIMA(20,2,2) model to the country's tfp column, forecasts 31 steps and draws the
  historical and the forecast line on one set of axes.

  The embedding follows the method statement by statement. What the method reads or
  changes outside its arguments is explicit state (\<open>self.df\<close> and the process-wide
  list \<open>warnings.filters\<close>); every \<open>raise\<close>, and every exception of a library call that
  the method can reach, is a value \<open>Inl e\<close>; the lines handed to \<open>ax.plot\<close> are the result.
  Three things are not code of the repository and are parameters of the model: the
  content of the downloaded CSV file, the order in which Python iterates over a set of
  strings, and the statsmodels fit and forecast.
\<close>

subsection \<open>Python values, rows, errors, plotted lines\<close>

text \<open>
  The argument \<open>countries\<close> is an arbitrary Python object. The model keeps the shapes
  that the method treats differently: a list (the only one accepted by
  \<open>isinstance(countries, list)\<close>), a tuple, and scalars.
\<close>

datatype pyval =
    PyNone
  | PyInt int
  | PyStr string
  | PyTuple "pyval list"
  | PyList "pyval list"

text \<open>
  One row of the data frame, with the three columns the method reads. The tfp values
  are floating-point numbers that the method never inspects: it only hands them to
  the model fit and to the plot, so their type is a parameter.
  Years are the integers of the \<open>Year\<close> column; they are taken to be far from the
  bounds of numpy's 64-bit integers, so that \<open>years[-1] + 31\<close> does not wrap.
\<close>

record 'v row =
  Entity :: string
  Year :: int
  tfp :: 'v

type_synonym 'v dataframe = "'v row list"

text \<open>
  Exceptions. \<open>TypeError\<close> and \<open>ValueError\<close> carry their message, as the two
  \<open>ValueError\<close>s of the method differ only there. \<open>FitError\<close> wraps whatever
  the statsmodels calls raise.
\<close>

datatype 'e error =
    TypeError string
  | ValueError string
  | IndexError string
  | FitError 'e

text \<open>One call of \<open>ax.plot(x, y, label=..., linestyle=...)\<close>.\<close>

record 'v line =
  xdata :: "int list"
  ydata :: "'v list"
  label :: string
  linestyle :: string

text \<open>
  An entry of \<open>warnings.filters\<close>: (action, message pattern, category, module pattern,
  line number), a missing pattern being \<open>None\<close>.
\<close>

type_synonym warn_filter = "string \<times> string option \<times> string \<times> string option \<times> nat"

record 'v state =
  df :: "'v dataframe option"
  warning_filters :: "warn_filter list"

text \<open>
  What the method takes from outside the repository. The library calls are taken not
  to modify the arrays they are given.
\<close>

record ('v, 'e) externals =
  download_csv :: "'v dataframe option"
    \<comment> \<open>the rows of downloads/data.csv; \<open>None\<close> when the download fails and
        \<open>get_data\<close> returns early\<close>
  set_iter :: "string list \<Rightarrow> string list"
    \<comment> \<open>the order in which Python iterates over the set built from these strings\<close>
  arima_forecast :: "nat \<times> nat \<times> nat \<Rightarrow> 'v list \<Rightarrow> nat \<Rightarrow> 'e + 'v list"
    \<comment> \<open>\<open>ARIMA(series, order=order).fit().forecast(steps=steps)\<close>, \<open>Inl\<close> when one of
        the three calls raises\<close>

subsection \<open>Library operations the method calls\<close>

text \<open>\<open>warnings.filterwarnings(action)\<close> with its default arguments.\<close>

definition filterwarnings :: "string \<Rightarrow> 'v state \<Rightarrow> 'v state" where
  "filterwarnings act s =
     (let item = (act, None, ''Warning'', None, 0)
      in s\<lparr>warning_filters := item # remove1 item (warning_filters s)\<rparr>)"

text \<open>\<open>Series.unique()\<close>: the distinct values in order of first appearance.\<close>

function unique :: "'a list \<Rightarrow> 'a list" where
  "unique [] = []"
| "unique (x # xs) = x # unique (filter (\<lambda>y. y \<noteq> x) xs)"
  by pat_completeness auto
termination
  by (relation "measure length") (auto simp: less_Suc_eq_le)

text \<open>\<open>sep.join(xs)\<close>.\<close>

fun join :: "string \<Rightarrow> string list \<Rightarrow> string" where
  "join sep [] = []"
| "join sep [x] = x"
| "join sep (x # y # ys) = x @ sep @ join sep (y # ys)"

text \<open>\<open>np.arange(a, b)\<close> on integers: \<open>a, a + 1, ..., b - 1\<close>.\<close>

definition arange :: "int \<Rightarrow> int \<Rightarrow> int list" where
  "arange a b = map (\<lambda>i. a + int i) [0..<nat (b - a)]"

text \<open>\<open>hash(x)\<close> succeeds: lists are unhashable, a tuple is hashable when its items are.\<close>

fun hashable :: "pyval \<Rightarrow> bool" where
  "hashable (PyList xs) = False"
| "hashable (PyTuple xs) = list_all hashable xs"
| "hashable v = True"

definition quoted :: "string \<Rightarrow> string" where
  "quoted s = [CHR 0x27] @ s @ [CHR 0x27]"

text \<open>
  \<open>x in available\<close> for a set of strings: hashing an unhashable object raises
  \<open>TypeError\<close>; a hashable object is a member only if it is one of the strings.
\<close>

definition py_in :: "pyval \<Rightarrow> string list \<Rightarrow> 'e error + bool" where
  "py_in x available =
     (if \<not> hashable x then Inl (TypeError (''unhashable type: '' @ quoted ''list''))
      else case x of PyStr c \<Rightarrow> Inr (c \<in> set available) | _ \<Rightarrow> Inr False)"

subsection \<open>\<open>Group01.get_data\<close>\<close>

definition aggregated_columns :: "string list" where
  "aggregated_columns =
     [''Caribbean'', ''Central Africa'', ''Central African Republic'', ''Central America'',
      ''Central Asia'', ''Central Europe'', ''Czechoslovakia'', ''Developed Asia'',
      ''Developed countries'', ''Former Soviet Union'', ''High income'', ''Horn of Africa'',
      ''Latin America and the Caribbean'', ''Least developed countries'', ''Low income'',
      ''Lower-middle income'', ''North Africa'', ''Northeast Asia'', ''Northern Europe'',
      ''South Asia'', ''Southeast Asia'', ''Southern Africa'', ''Southern Europe'',
      ''Sub-Saharan Africa'', ''Upper-middle income'', ''West Africa'', ''West Asia'',
      ''Western Europe'', ''World'', ''Yugoslavia'']"

text \<open>
  The part of \<open>get_data\<close> that concerns \<open>self.df\<close>: when the download fails the method
  returns at once; otherwise, if no frame is loaded, it reads the file and drops the
  aggregated entities. (The downloads directory and \<open>self.df_geographical\<close> are not
  read by \<open>predictor\<close> and are left out.)
\<close>

definition get_data :: "('v, 'e) externals \<Rightarrow> 'v state \<Rightarrow> 'v state" where
  "get_data ext s =
     (case download_csv ext of
        None \<Rightarrow> s
      | Some csv \<Rightarrow>
          if df s = None
          then s\<lparr>df := Some (filter (\<lambda>r. Entity r \<notin> set aggregated_columns) csv)\<rparr>
          else s)"

subsection \<open>\<open>Group01.predictor\<close>\<close>

text \<open>
  The list comprehension \<open>[country for country in countries if country in
  available_countries]\<close>. The items kept are strings, since only strings are members.
\<close>

fun countries_to_use :: "string list \<Rightarrow> pyval list \<Rightarrow> 'e error + string list" where
  "countries_to_use available [] = Inr []"
| "countries_to_use available (x # xs) =
     (case py_in x available of
        Inl e \<Rightarrow> Inl e
      | Inr b \<Rightarrow>
          (case countries_to_use available xs of
             Inl e \<Rightarrow> Inl e
           | Inr rest \<Rightarrow>
               Inr (if b then (case x of PyStr c \<Rightarrow> c # rest | _ \<Rightarrow> rest) else rest)))"

text \<open>
  The body of \<open>for country in countries_to_use\<close>, with the lines drawn so far as the
  accumulator \<open>ax\<close>. The forecast line takes its colour from the line drawn just
  before it; colours are not modelled.
\<close>

fun plot_countries ::
  "('v, 'e) externals \<Rightarrow> 'v dataframe \<Rightarrow> string list \<Rightarrow> 'v line list \<Rightarrow> 'e error + 'v line list"
where
  "plot_countries ext d [] ax = Inr ax"
| "plot_countries ext d (country # rest) ax =
     (let data = filter (\<lambda>r. Entity r = country) d;
          tfps = map tfp data;
          years = map Year data;
          ax1 = ax @ [\<lparr>xdata = years, ydata = tfps, label = country, linestyle = ''-''\<rparr>]
      in case arima_forecast ext (20, 2, 2) tfps 31 of
           Inl e \<Rightarrow> Inl (FitError e)
         | Inr predictions \<Rightarrow>
             if years = []
             then Inl (IndexError ''index -1 is out of bounds for axis 0 with size 0'')
             else plot_countries ext d rest
                    (ax1 @ [\<lparr>xdata = arange (last years) (last years + 31),
                             ydata = predictions,
                             label = country @ '' (forecast)'',
                             linestyle = ''--''\<rparr>]))"

definition predictor ::
  "('v, 'e) externals \<Rightarrow> 'v state \<Rightarrow> pyval \<Rightarrow> ('e error + 'v line list) \<times> 'v state"
where
  "predictor ext s0 countries =
     (let s1 = filterwarnings ''ignore'' s0
      in case countries of
           PyList cs \<Rightarrow>
             (let s2 = (if df s1 = None then get_data ext s1 else s1)
              in case df s2 of
                   None \<Rightarrow>
                     (Inl (TypeError (quoted ''NoneType'' @ '' object is not subscriptable'')), s2)
                 | Some d \<Rightarrow>
                     (let available_countries = unique (map Entity d)
                      in case countries_to_use available_countries cs of
                           Inl e \<Rightarrow> (Inl e, s2)
                         | Inr use \<Rightarrow>
                             if use = []
                             then (Inl (ValueError
                                    (''No valid countries provided. Available countries are: ''
                                       @ join '', '' (set_iter ext available_countries))), s2)
                             else if length cs > 3
                             then (Inl (ValueError ''Maximum of three countries can be provided.''), s2)
                             else (plot_countries ext d use [], s2)))
         | _ \<Rightarrow>
             (Inl (TypeError
                (''No valid type as an argument. Please insert the names of countries as a list into the method.'')),
              s1))"

subsection \<open>Names used in the statements\<close>

text \<open>
  The specification's names for the three errors that the method raises itself.
\<close>

definition InvalidArgument :: "'e error" where
  "InvalidArgument =
     TypeError ''No valid type as an argument. Please insert the names of countries as a list into the method.''"

definition TooManyCountries :: "'e error" where
  "TooManyCountries = ValueError ''Maximum of three countries can be provided.''"

definition UnknownCountries :: "('v, 'e) externals \<Rightarrow> 'v dataframe \<Rightarrow> 'e error" where
  "UnknownCountries ext d =
     ValueError (''No valid countries provided. Available countries are: ''
                   @ join '', '' (set_iter ext (unique (map Entity d))))"

text \<open>A country list: a Python list of strings.\<close>

definition names :: "string list \<Rightarrow> pyval" where
  "names ns = PyList (map PyStr ns)"

text \<open>The strings among the items of a list, in order.\<close>

fun str_items :: "pyval list \<Rightarrow> string list" where
  "str_items [] = []"
| "str_items (PyStr c # xs) = c # str_items xs"
| "str_items (x # xs) = str_items xs"

text \<open>A known country is one that occurs in the \<open>Entity\<close> column.\<close>

definition known :: "'v dataframe \<Rightarrow> string \<Rightarrow> bool" where
  "known d c = (c \<in> Entity ` set d)"

text \<open>
  The data frame a call works on: \<open>self.df\<close> when it is loaded, and otherwise what
  \<open>get_data\<close> loads at the start of the call (\<open>None\<close> when that fails).
\<close>

definition loaded_df :: "('v, 'e) externals \<Rightarrow> 'v state \<Rightarrow> 'v dataframe option" where
  "loaded_df ext s = df (if df s = None then get_data ext s else s)"

text \<open>The rows of one country, \<open>self.df[self.df["Entity"] == country]\<close>.\<close>

definition series :: "'v dataframe \<Rightarrow> string \<Rightarrow> 'v row list" where
  "series d c = filter (\<lambda>r. Entity r = c) d"

text \<open>The statsmodels calls return a forecast for the country's series.\<close>

definition fit_returns :: "('v, 'e) externals \<Rightarrow> 'v dataframe \<Rightarrow> string \<Rightarrow> bool" where
  "fit_returns ext d c = (\<not> isl (arima_forecast ext (20, 2, 2) (map tfp (series d c)) 31))"

text \<open>
  The two lines that one pass of the loop draws for a country whose fit returns:
  the historical line and the forecast line.
\<close>

definition country_lines :: "('v, 'e) externals \<Rightarrow> 'v dataframe \<Rightarrow> string \<Rightarrow> 'v line list" where
  "country_lines ext d c =
     (let years = map Year (series d c); tfps = map tfp (series d c)
      in case arima_forecast ext (20, 2, 2) tfps 31 of
           Inl e \<Rightarrow> []
         | Inr predictions \<Rightarrow>
             [\<lparr>xdata = years, ydata = tfps, label = c, linestyle = ''-''\<rparr>,
              \<lparr>xdata = arange (last years) (last years + 31), ydata = predictions,
               label = c @ '' (forecast)'', linestyle = ''--''\<rparr>])"

subsection \<open>A small data set for concrete runs\<close>

text \<open>
  Two countries with three yearly observations each, ending in 2019 as the published
  data set does. The stand-in for the statsmodels calls repeats the last observation;
  it only serves to run the method on concrete input.
\<close>

definition sample_df :: "real dataframe" where
  "sample_df =
     [\<lparr>Entity = ''France'', Year = 2017, tfp = 98\<rparr>,
      \<lparr>Entity = ''Germany'', Year = 2017, tfp = 101\<rparr>,
      \<lparr>Entity = ''France'', Year = 2018, tfp = 99\<rparr>,
      \<lparr>Entity = ''Germany'', Year = 2018, tfp = 103\<rparr>,
      \<lparr>Entity = ''France'', Year = 2019, tfp = 100\<rparr>,
      \<lparr>Entity = ''Germany'', Year = 2019, tfp = 104\<rparr>]"

definition sample_fit :: "nat \<times> nat \<times> nat \<Rightarrow> real list \<Rightarrow> nat \<Rightarrow> string + real list" where
  "sample_fit order xs steps =
     (if xs = [] then Inl ''empty series'' else Inr (replicate steps (last xs)))"

definition sample_ext :: "(real, string) externals" where
  "sample_ext =
     \<lparr>download_csv = Some sample_df, set_iter = (\<lambda>xs. xs), arima_forecast = sample_fit\<rparr>"

definition sample_state :: "real state" where
  "sample_state = \<lparr>df = Some sample_df, warning_filters = []\<rparr>"

definition unloaded_state :: "real state" where
  "unloaded_state = \<lparr>df = None, warning_filters = []\<rparr>"

text \<open>A data frame in which a country has a single observation.\<close>

definition short_df :: "real dataframe" where
  "short_df = [\<lparr>Entity = ''France'', Year = 2019, tfp = 100\<rparr>]"

definition short_state :: "real state" where
  "short_state = \<lparr>df = Some short_df, warning_filters = []\<rparr>"

section \<open>Properties of the library operations\<close>

lemma set_unique: "set (unique xs) = set xs"
  by (induction xs rule: unique.induct) auto

lemma distinct_unique: "distinct (unique xs)"
  by (induction xs rule: unique.induct) (auto simp: set_unique)

lemma join_mem: "c \<in> set xs \<Longrightarrow> sublist c (join sep xs)"
proof (induction sep xs rule: join.induct)
  case (3 sep x y ys)
  show ?case
  proof (cases "c = x")
    case True
    then show ?thesis by simp
  next
    case False
    with 3 have "sublist c (join sep (y # ys))" by simp
    then obtain ps ss where "join sep (y # ys) = ps @ c @ ss" by (auto simp: sublist_def)
    then have "join sep (x # y # ys) = (x @ sep @ ps) @ c @ ss" by simp
    then show ?thesis unfolding sublist_def by blast
  qed
qed simp_all

lemma length_arange: "length (arange a (a + 31)) = 31"
  by (simp add: arange_def)

lemma arange_31: "arange a (a + 31) = map (\<lambda>i. a + int i) [0..<31]"
  by (simp add: arange_def)

lemma df_filterwarnings: "df (filterwarnings a s) = df s"
  by (simp add: filterwarnings_def Let_def)

lemma df_get_data_filterwarnings: "df (get_data ext (filterwarnings a s)) = df (get_data ext s)"
  by (auto simp: get_data_def filterwarnings_def Let_def split: option.splits)

lemma get_data_filters: "warning_filters (get_data ext s) = warning_filters s"
  by (simp add: get_data_def split: option.splits)

lemma loaded_df_Some: "df s = Some d \<Longrightarrow> loaded_df ext s = Some d"
  by (simp add: loaded_df_def)

section \<open>The selection of the countries\<close>

lemma countries_to_use_hashable:
  "list_all hashable cs \<Longrightarrow>
   countries_to_use av cs = Inr (filter (\<lambda>c. c \<in> set av) (str_items cs))"
proof (induction cs)
  case Nil
  show ?case by simp
next
  case (Cons x xs)
  then show ?case by (cases x) (simp_all add: py_in_def)
qed

lemma countries_to_use_unhashable:
  "\<not> list_all hashable cs \<Longrightarrow>
   countries_to_use av cs = Inl (TypeError (''unhashable type: '' @ quoted ''list''))"
proof (induction cs)
  case Nil
  then show ?case by simp
next
  case (Cons x xs)
  then show ?case
    by (cases "hashable x") (auto simp: py_in_def split: pyval.splits sum.splits)
qed

lemma countries_to_use_error:
  assumes "countries_to_use av cs = Inl e"
  shows "e = TypeError (''unhashable type: '' @ quoted ''list'')"
proof (cases "list_all hashable cs")
  case True
  with assms show ?thesis by (simp add: countries_to_use_hashable)
next
  case False
  with assms show ?thesis by (simp add: countries_to_use_unhashable)
qed

lemma str_items_names: "str_items (map PyStr ns) = ns"
  by (induction ns) simp_all

lemma hashable_names: "list_all hashable (map PyStr ns)"
  by (induction ns) simp_all

lemma filter_available:
  "filter (\<lambda>c. c \<in> set (unique (map Entity d))) xs = filter (known d) xs"
  by (simp add: set_unique known_def [abs_def])

section \<open>The loop over the selected countries\<close>

lemma known_series: "known d c \<Longrightarrow> map Year (series d c) \<noteq> []"
  by (auto simp: known_def series_def filter_empty_conv)

text \<open>
  When every selected country is known and every fit returns, the loop draws the two
  lines of each country in order; \<open>years[-1]\<close> is never out of range.
\<close>

lemma plot_countries_ok:
  assumes "\<forall>c\<in>set use. known d c" and "\<forall>c\<in>set use. fit_returns ext d c"
  shows "plot_countries ext d use ax = Inr (ax @ concat (map (country_lines ext d) use))"
  using assms
proof (induction use arbitrary: ax)
  case Nil
  show ?case by simp
next
  case (Cons c cs)
  from Cons.prems have "known d c" by simp
  then have k: "map Year (series d c) \<noteq> []" by (rule known_series)
  from Cons.prems obtain p where
    p: "arima_forecast ext (20, 2, 2) (map tfp (series d c)) 31 = Inr p"
    by (cases "arima_forecast ext (20, 2, 2) (map tfp (series d c)) 31")
       (auto simp: fit_returns_def)
  from Cons.prems have rest: "\<forall>c\<in>set cs. known d c" "\<forall>c\<in>set cs. fit_returns ext d c"
    by simp_all
  show ?case
    using k p Cons.IH [OF rest]
    by (simp add: country_lines_def Let_def series_def [symmetric])
qed

text \<open>The only exception the loop can raise on known countries is one of the fit.\<close>

lemma plot_countries_error:
  assumes "\<forall>c\<in>set use. known d c" and "plot_countries ext d use ax = Inl e"
  shows "\<exists>x. e = FitError x"
  using assms
proof (induction use arbitrary: ax)
  case Nil
  then show ?case by simp
next
  case (Cons c cs)
  from Cons.prems have "known d c" by simp
  then have k: "map Year (series d c) \<noteq> []" by (rule known_series)
  from Cons.prems have rest: "\<forall>c\<in>set cs. known d c" by simp
  show ?case
  proof (cases "arima_forecast ext (20, 2, 2) (map tfp (series d c)) 31")
    case (Inl x)
    with Cons.prems(2) show ?thesis by (auto simp: Let_def series_def [symmetric])
  next
    case (Inr p)
    with Cons.prems(2) k Cons.IH [OF rest] show ?thesis
      by (simp add: Let_def series_def [symmetric])
  qed
qed

lemma plot_countries_error_kind:
  "plot_countries ext d use ax = Inl e \<Longrightarrow> (\<exists>x. e = FitError x) \<or> (\<exists>m. e = IndexError m)"
proof (induction use arbitrary: ax)
  case Nil
  then show ?case by simp
next
  case (Cons c cs)
  then show ?case
    by (auto simp: Let_def split: sum.splits if_splits)
qed

text \<open>The solid lines of a figure are the historical ones, one per country.\<close>

lemma solid_labels:
  assumes "\<forall>c\<in>set cs. fit_returns ext d c"
  shows "map label (filter (\<lambda>l. linestyle l = ''-'') (concat (map (country_lines ext d) cs))) = cs"
  using assms
proof (induction cs)
  case Nil
  show ?case by simp
next
  case (Cons c cs)
  from Cons.prems obtain p where
    "arima_forecast ext (20, 2, 2) (map tfp (series d c)) 31 = Inr p"
    by (cases "arima_forecast ext (20, 2, 2) (map tfp (series d c)) 31")
       (auto simp: fit_returns_def)
  with Cons show ?case by (simp add: country_lines_def Let_def)
qed

section \<open>The method as a whole\<close>

text \<open>The outcome of a call with a list, in terms of the data frame the call works on.\<close>

lemma predictor_result:
  "fst (predictor ext s (PyList cs)) =
     (case loaded_df ext s of
        None \<Rightarrow> Inl (TypeError (quoted ''NoneType'' @ '' object is not subscriptable''))
      | Some d \<Rightarrow>
          (case countries_to_use (unique (map Entity d)) cs of
             Inl e \<Rightarrow> Inl e
           | Inr use \<Rightarrow>
               if use = [] then Inl (UnknownCountries ext d)
               else if 3 < length cs then Inl TooManyCountries
               else plot_countries ext d use []))"
  by (simp add: predictor_def Let_def df_filterwarnings df_get_data_filterwarnings
      loaded_df_def UnknownCountries_def TooManyCountries_def split: option.splits sum.splits)

text \<open>
  With a data frame and a list of hashable items, the outcome is decided by the known
  strings among the items and by the length of the list as passed.
\<close>

lemma predictor_list_loaded:
  assumes "loaded_df ext s = Some d" and "list_all hashable cs"
  shows "fst (predictor ext s (PyList cs)) =
           (if filter (known d) (str_items cs) = [] then Inl (UnknownCountries ext d)
            else if 3 < length cs then Inl TooManyCountries
            else plot_countries ext d (filter (known d) (str_items cs)) [])"
  using assms
  by (simp add: predictor_result countries_to_use_hashable filter_available)

lemma predictor_names_loaded:
  assumes "loaded_df ext s = Some d"
  shows "fst (predictor ext s (names ns)) =
           (if filter (known d) ns = [] then Inl (UnknownCountries ext d)
            else if 3 < length ns then Inl TooManyCountries
            else plot_countries ext d (filter (known d) ns) [])"
  using predictor_list_loaded [OF assms hashable_names [of ns]]
  by (simp add: names_def str_items_names)

text \<open>
  A call for one known country has no test of its own on the length of the series: it
  returns the country's two lines when the fit returns, and it raises what the fit
  raises.
\<close>

lemma single_country_outcome:
  assumes "loaded_df ext s = Some d" and "known d c"
  shows "fst (predictor ext s (names [c])) =
           (case arima_forecast ext (20, 2, 2) (map tfp (series d c)) 31 of
              Inl e \<Rightarrow> Inl (FitError e)
            | Inr predictions \<Rightarrow> Inr (country_lines ext d c))"
proof -
  from assms(2) have "map Year (series d c) \<noteq> []" by (rule known_series)
  with assms show ?thesis
    by (simp add: predictor_names_loaded country_lines_def Let_def series_def [symmetric]
        split: sum.splits)
qed

text \<open>A call with a list never raises the \<open>TypeError\<close> of the type check.\<close>

lemma list_is_not_invalid_argument:
  fixes ext :: "('v, 'e) externals"
  shows "fst (predictor ext s (PyList cs)) \<noteq> Inl InvalidArgument"
proof
  assume a: "fst (predictor ext s (PyList cs)) = Inl InvalidArgument"
  show False
  proof (cases "loaded_df ext s")
    case None
    with a show False
      by (simp add: predictor_result InvalidArgument_def quoted_def)
  next
    case (Some d)
    show False
    proof (cases "countries_to_use (unique (map Entity d)) cs :: 'e error + string list")
      case (Inl e)
      from countries_to_use_error [OF Inl] a Some Inl show False
        by (simp add: predictor_result InvalidArgument_def quoted_def)
    next
      case (Inr use)
      show False
      proof (cases "plot_countries ext d use []")
        case (Inl e)
        from plot_countries_error_kind [OF Inl] a Some Inr Inl show False
          by (auto simp: predictor_result InvalidArgument_def UnknownCountries_def
              TooManyCountries_def split: if_splits)
      next
        case r: (Inr fig)
        with a Some Inr show False
          by (auto simp: predictor_result InvalidArgument_def UnknownCountries_def
              TooManyCountries_def split: if_splits)
      qed
    qed
  qed
qed

text \<open>The state after the call, on every path.\<close>

lemma predictor_state:
  "snd (predictor ext s arg) =
     (case arg of
        PyList cs \<Rightarrow> (if df s = None then get_data ext (filterwarnings ''ignore'' s)
                      else filterwarnings ''ignore'' s)
      | _ \<Rightarrow> filterwarnings ''ignore'' s)"
  by (cases arg)
     (simp_all add: predictor_def Let_def filterwarnings_def split: option.splits sum.splits)

text \<open>
  A call on an instance whose frame is not loaded loads it through \<open>get_data\<close>, whatever
  the outcome of the call; a call whose argument is not a list returns before that.
\<close>

lemma predictor_lazy_load:
  "df (snd (predictor ext s (PyList cs))) = loaded_df ext s"
  by (simp add: predictor_state loaded_df_def df_filterwarnings df_get_data_filterwarnings)

section \<open>Facts about the sample data\<close>

lemma sample_loaded: "loaded_df sample_ext sample_state = Some sample_df"
  by (simp add: loaded_df_def sample_state_def)

lemma sample_lazily_loaded: "loaded_df sample_ext unloaded_state = Some sample_df"
  by (simp add: loaded_df_def unloaded_state_def get_data_def sample_ext_def sample_df_def
      aggregated_columns_def)

lemma sample_known:
  "known sample_df ''France''" "known sample_df ''Germany''"
  "\<not> known sample_df ''Atlantis''" "\<not> known sample_df ''Lemuria''"
  "\<not> known sample_df ''Mu''" "\<not> known sample_df ''Narnia''"
  by (simp_all add: known_def sample_df_def)

lemma sample_fit_returns:
  "fit_returns sample_ext sample_df ''France''" "fit_returns sample_ext sample_df ''Germany''"
  by (simp_all add: fit_returns_def sample_ext_def sample_fit_def series_def sample_df_def)

lemma sample_series_France:
  "map Year (series sample_df ''France'') = [2017, 2018, 2019]"
  by (simp add: series_def sample_df_def)

lemma sample_unknown_message:
  "UnknownCountries sample_ext sample_df =
     ValueError ''No valid countries provided. Available countries are: France, Germany''"
  by (simp add: UnknownCountries_def sample_ext_def sample_df_def)

lemma short_loaded: "loaded_df sample_ext short_state = Some short_df"
  by (simp add: loaded_df_def short_state_def)

lemma short_known: "known short_df ''France''"
  by (simp add: known_def short_df_def)

lemma short_series:
  "map Year (series short_df ''France'') = [2019]"
  "map tfp (series short_df ''France'') = [100]"
  by (simp_all add: series_def short_df_def)

lemma short_fit:
  "arima_forecast sample_ext (20, 2, 2) [100] 31 = Inr (replicate 31 100)"
  by (simp add: sample_ext_def sample_fit_def)

lemma sample_run_France:
  "fst (predictor sample_ext sample_state (names [''France''])) =
     Inr (country_lines sample_ext sample_df ''France'')"
  using plot_countries_ok [of "[''France'']" sample_df sample_ext "[]"]
  by (simp add: predictor_names_loaded [OF sample_loaded] sample_known sample_fit_returns)

section \<open>The claims\<close>

subsection \<open>C1: the periods of the forecast line\<close>

text \<open>
  C1 states that the forecast of a single-country call has 31 entries whose periods are
  consecutive and start at the last historical year plus one (2020 to 2050 for a series
  ending in 2019). The method draws the forecast values over
  \<open>np.arange(years[-1], years[-1] + 31)\<close>: whenever a call for one country returns, its
  forecast line has the 31 consecutive periods \<open>last, last + 1, ..., last + 30\<close>, where
  \<open>last\<close> is the last historical year itself. For a series ending in 2019 these are
  2019 to 2049, one year early, although the docstring promises a prediction until 2050
  and the 31 forecast steps after 2019 are the years 2020 to 2050.
\<close>

theorem forecast_periods_start_at_last_year:
  assumes "loaded_df ext s = Some d" and "fst (predictor ext s (names [c])) = Inr fig"
  shows "\<exists>preds. series d c \<noteq> [] \<and>
           fig = [\<lparr>xdata = map Year (series d c), ydata = map tfp (series d c),
                   label = c, linestyle = ''-''\<rparr>,
                  \<lparr>xdata = map (\<lambda>i. last (map Year (series d c)) + int i) [0..<31],
                   ydata = preds, label = c @ '' (forecast)'', linestyle = ''--''\<rparr>]"
proof -
  from assms have k: "known d c"
    by (auto simp: predictor_names_loaded split: if_splits)
  then have ne: "map Year (series d c) \<noteq> []" by (rule known_series)
  from assms k have run: "plot_countries ext d [c] [] = Inr fig"
    by (simp add: predictor_names_loaded)
  then obtain preds where
    "arima_forecast ext (20, 2, 2) (map tfp (series d c)) 31 = Inr preds"
    by (cases "arima_forecast ext (20, 2, 2) (map tfp (series d c)) 31")
       (auto simp: Let_def series_def [symmetric])
  with run ne show ?thesis
    by (auto simp: Let_def series_def [symmetric] arange_31)
qed

text \<open>
  The run on the sample data, whose series for France ends in 2019: the forecast line
  is drawn over 2019 to 2049.
\<close>

theorem forecast_periods_start_at_last_year_witness:
  "\<exists>fig. fst (predictor sample_ext sample_state (names [''France''])) = Inr fig \<and>
         map xdata fig =
           [[2017, 2018, 2019],
            [2019, 2020, 2021, 2022, 2023, 2024, 2025, 2026, 2027, 2028, 2029, 2030, 2031,
             2032, 2033, 2034, 2035, 2036, 2037, 2038, 2039, 2040, 2041, 2042, 2043, 2044,
             2045, 2046, 2047, 2048, 2049]]"
proof -
  have periods: "map (\<lambda>i. 2019 + int i) [0..<31] =
            [2019, 2020, 2021, 2022, 2023, 2024, 2025, 2026, 2027, 2028, 2029, 2030, 2031,
             2032, 2033, 2034, 2035, 2036, 2037, 2038, 2039, 2040, 2041, 2042, 2043, 2044,
             2045, 2046, 2047, 2048, 2049]"
    by code_simp
  from forecast_periods_start_at_last_year [OF sample_loaded sample_run_France]
  show ?thesis
    using sample_run_France periods by (auto simp: sample_series_France)
qed

subsection \<open>C2: four or more names\<close>

text \<open>
  C2 states that a list of four or more names fails with TooManyCountries even when
  every name is unknown. The method tests the filtered list for emptiness before it
  tests the length: four unknown names fail with UnknownCountries.
\<close>

theorem four_unknown_names_counterexample:
  "fst (predictor sample_ext sample_state (names [''Atlantis'', ''Lemuria'', ''Mu'', ''Narnia''])) =
     Inl (ValueError ''No valid countries provided. Available countries are: France, Germany'') \<and>
   fst (predictor sample_ext sample_state (names [''Atlantis'', ''Lemuria'', ''Mu'', ''Narnia''])) \<noteq>
     Inl TooManyCountries"
  by (simp add: predictor_names_loaded [OF sample_loaded] sample_known sample_unknown_message
      TooManyCountries_def)

text \<open>
  C2 as amended: on a data frame, a list of four or more names fails with
  TooManyCountries when at least one of the names is known, and with UnknownCountries
  when none is.
\<close>

theorem too_many_countries_needs_a_known_name:
  assumes "loaded_df ext s = Some d" and "3 < length ns"
  shows "fst (predictor ext s (names ns)) =
           (if \<exists>c\<in>set ns. known d c then Inl TooManyCountries
            else Inl (UnknownCountries ext d))"
  using assms by (auto simp: predictor_names_loaded filter_empty_conv)

theorem too_many_countries_needs_a_known_name_witness:
  "fst (predictor sample_ext sample_state (names [''France'', ''Atlantis'', ''Lemuria'', ''Mu''])) =
     Inl TooManyCountries \<and>
   fst (predictor sample_ext sample_state (names [''Atlantis'', ''Lemuria'', ''Mu'', ''Narnia''])) =
     Inl (UnknownCountries sample_ext sample_df)"
  using too_many_countries_needs_a_known_name
          [OF sample_loaded, of "[''France'', ''Atlantis'', ''Lemuria'', ''Mu'']"]
        too_many_countries_needs_a_known_name
          [OF sample_loaded, of "[''Atlantis'', ''Lemuria'', ''Mu'', ''Narnia'']"]
  by (simp add: sample_known)

subsection \<open>C3: the limit is tested on the list as passed\<close>

text \<open>
  C3: the limit of three is tested on the length of the list as passed, not on the
  number of names that survive the filter. For every list that contains a known name:
  if it has more than three names the call fails with TooManyCountries, however few of
  them are known; if it has at most three names the call passes the validation, so
  that it returns the figure whenever the statsmodels fit returns for each known
  name, and the only exception it can raise is one raised by the fit.
\<close>

theorem limit_is_on_the_list_as_passed:
  assumes "loaded_df ext s = Some d" and "\<exists>c\<in>set ns. known d c"
  shows "(3 < length ns \<longrightarrow> fst (predictor ext s (names ns)) = Inl TooManyCountries) \<and>
         (length ns \<le> 3 \<longrightarrow>
            ((\<forall>c\<in>set ns. known d c \<longrightarrow> fit_returns ext d c) \<longrightarrow>
               (\<exists>fig. fst (predictor ext s (names ns)) = Inr fig)) \<and>
            (\<forall>e. fst (predictor ext s (names ns)) = Inl e \<longrightarrow> (\<exists>x. e = FitError x)))"
proof -
  from assms(2) have ne: "filter (known d) ns \<noteq> []"
    by (auto simp: filter_empty_conv)
  have sel: "\<forall>c\<in>set (filter (known d) ns). known d c" by simp
  show ?thesis
  proof (intro conjI impI allI)
    assume "3 < length ns"
    with ne show "fst (predictor ext s (names ns)) = Inl TooManyCountries"
      by (simp add: predictor_names_loaded [OF assms(1)])
  next
    assume len: "length ns \<le> 3" and fits: "\<forall>c\<in>set ns. known d c \<longrightarrow> fit_returns ext d c"
    from fits have "\<forall>c\<in>set (filter (known d) ns). fit_returns ext d c" by simp
    from plot_countries_ok [OF sel this, of "[]"] len ne
    show "\<exists>fig. fst (predictor ext s (names ns)) = Inr fig"
      by (simp add: predictor_names_loaded [OF assms(1)])
  next
    fix e
    assume len: "length ns \<le> 3" and "fst (predictor ext s (names ns)) = Inl e"
    with ne have "plot_countries ext d (filter (known d) ns) [] = Inl e"
      by (simp add: predictor_names_loaded [OF assms(1)])
    from plot_countries_error [OF sel this] show "\<exists>x. e = FitError x" .
  qed
qed

text \<open>
  Four names of which one is known fail; the specification's scenario, France and
  Atlantis, returns a figure, also on an instance that loads its data during the call.
\<close>

theorem limit_is_on_the_list_as_passed_witness:
  "fst (predictor sample_ext sample_state (names [''France'', ''Atlantis'', ''Lemuria'', ''Mu''])) =
     Inl TooManyCountries \<and>
   (\<exists>fig. fst (predictor sample_ext sample_state (names [''France'', ''Atlantis''])) = Inr fig) \<and>
   (\<exists>fig. fst (predictor sample_ext unloaded_state (names [''France'', ''Atlantis''])) = Inr fig)"
proof -
  have k4: "\<exists>c\<in>set [''France'', ''Atlantis'', ''Lemuria'', ''Mu'']. known sample_df c"
    and k2: "\<exists>c\<in>set [''France'', ''Atlantis'']. known sample_df c"
    by (simp_all add: sample_known)
  have fits: "\<forall>c\<in>set [''France'', ''Atlantis'']. known sample_df c \<longrightarrow> fit_returns sample_ext sample_df c"
    by (simp add: sample_known sample_fit_returns)
  from limit_is_on_the_list_as_passed [OF sample_loaded k4]
       limit_is_on_the_list_as_passed [OF sample_loaded k2]
       limit_is_on_the_list_as_passed [OF sample_lazily_loaded k2] fits
  show ?thesis by simp
qed

subsection \<open>C4: the type check of the argument\<close>

text \<open>
  C4 states that the call fails with InvalidArgument whenever the argument is not a
  sequence of strings, also when it is a sequence with items that are not strings. The
  method only tests \<open>isinstance(countries, list)\<close>: a list whose only item is the
  integer 7 passes the test, the integer is no member of the known countries, and the
  call fails with UnknownCountries.
\<close>

theorem non_string_item_counterexample:
  "fst (predictor sample_ext sample_state (PyList [PyInt 7])) =
     Inl (ValueError ''No valid countries provided. Available countries are: France, Germany'') \<and>
   fst (predictor sample_ext sample_state (PyList [PyInt 7])) \<noteq> Inl InvalidArgument"
  using predictor_list_loaded [OF sample_loaded, of "[PyInt 7]"]
  by (simp add: sample_unknown_message InvalidArgument_def)

text \<open>
  C4 as amended: the call fails with InvalidArgument exactly when the argument is not
  a list. A list with items that are not strings is not rejected for them: on a data
  frame, hashable items that are not strings are dropped like unknown names, and they
  count towards the limit of three.
\<close>

theorem invalid_argument_iff_not_a_list:
  "((fst (predictor ext s arg) = Inl InvalidArgument) = (\<forall>cs. arg \<noteq> PyList cs)) \<and>
   (loaded_df ext s = Some d \<longrightarrow> list_all hashable items \<longrightarrow>
      fst (predictor ext s (PyList items)) =
        (if filter (known d) (str_items items) = [] then Inl (UnknownCountries ext d)
         else if 3 < length items then Inl TooManyCountries
         else plot_countries ext d (filter (known d) (str_items items)) []))"
proof (intro conjI impI)
  show "(fst (predictor ext s arg) = Inl InvalidArgument) = (\<forall>cs. arg \<noteq> PyList cs)"
  proof (cases arg)
    case (PyList cs)
    then show ?thesis by (simp add: list_is_not_invalid_argument)
  qed (simp_all add: predictor_def InvalidArgument_def)
next
  assume "loaded_df ext s = Some d" and "list_all hashable items"
  then show "fst (predictor ext s (PyList items)) =
        (if filter (known d) (str_items items) = [] then Inl (UnknownCountries ext d)
         else if 3 < length items then Inl TooManyCountries
         else plot_countries ext d (filter (known d) (str_items items)) [])"
    by (rule predictor_list_loaded)
qed

text \<open>
  A string and a tuple of strings are rejected, a list of an integer and \<open>None\<close> is
  filtered to nothing, and a list of a known name and an integer is drawn for the name.
\<close>

theorem invalid_argument_iff_not_a_list_witness:
  "fst (predictor sample_ext sample_state (PyStr ''France'')) = Inl InvalidArgument \<and>
   fst (predictor sample_ext sample_state (PyTuple [PyStr ''France''])) = Inl InvalidArgument \<and>
   fst (predictor sample_ext sample_state (PyList [PyInt 7, PyNone])) =
     Inl (UnknownCountries sample_ext sample_df) \<and>
   fst (predictor sample_ext sample_state (PyList [PyStr ''France'', PyInt 7])) =
     Inr (country_lines sample_ext sample_df ''France'')"
proof -
  have h: "list_all hashable [PyInt 7, PyNone]" "list_all hashable [PyStr ''France'', PyInt 7]"
    by simp_all
  have run: "plot_countries sample_ext sample_df [''France''] [] =
               Inr (country_lines sample_ext sample_df ''France'')"
    using plot_countries_ok [of "[''France'']" sample_df sample_ext "[]"]
    by (simp add: sample_known sample_fit_returns)
  from invalid_argument_iff_not_a_list [of sample_ext sample_state "PyStr ''France''"]
       invalid_argument_iff_not_a_list [of sample_ext sample_state "PyTuple [PyStr ''France'']"]
       invalid_argument_iff_not_a_list [of sample_ext sample_state _ sample_df "[PyInt 7, PyNone]"]
       invalid_argument_iff_not_a_list
         [of sample_ext sample_state _ sample_df "[PyStr ''France'', PyInt 7]"]
       sample_loaded h run
  show ?thesis by (simp add: sample_known)
qed

subsection \<open>C5: series that are too short for the model\<close>

text \<open>
  C5 states that a series with fewer observations than the ARIMA(20,2,2) model needs
  (at most 22, the model taking more than p + d = 22) makes the call raise
  InsufficientData instead of returning 31 forecast values. The method has no test on
  the length of the series and raises no such error: a country with a single
  observation, for which the fit returns 31 values, is drawn with its forecast.
\<close>

theorem one_observation_counterexample:
  "length (series short_df ''France'') = 1 \<and>
   fst (predictor sample_ext short_state (names [''France''])) =
     Inr [\<lparr>xdata = [2019], ydata = [100], label = ''France'', linestyle = ''-''\<rparr>,
          \<lparr>xdata = arange 2019 2050, ydata = replicate 31 100,
           label = ''France (forecast)'', linestyle = ''--''\<rparr>] \<and>
   \<not> isl (fst (predictor sample_ext short_state (names [''France''])))"
  by (simp add: single_country_outcome [OF short_loaded short_known] short_series short_fit
      country_lines_def series_def short_df_def)

text \<open>
  C5 as amended: the method does not test the length of the series. For every series
  of a known country, however short, the call raises exactly when the statsmodels
  fit raises, and then it raises the exception of the fit; when the fit returns, the
  call returns the values of the fit as the forecast line.
\<close>

theorem series_length_is_not_checked:
  assumes "loaded_df ext s = Some d" and "known d c"
  shows "(isl (fst (predictor ext s (names [c]))) =
            isl (arima_forecast ext (20, 2, 2) (map tfp (series d c)) 31)) \<and>
         (\<forall>e. arima_forecast ext (20, 2, 2) (map tfp (series d c)) 31 = Inl e \<longrightarrow>
              fst (predictor ext s (names [c])) = Inl (FitError e)) \<and>
         (\<forall>preds. arima_forecast ext (20, 2, 2) (map tfp (series d c)) 31 = Inr preds \<longrightarrow>
              fst (predictor ext s (names [c])) =
                Inr [\<lparr>xdata = map Year (series d c), ydata = map tfp (series d c),
                      label = c, linestyle = ''-''\<rparr>,
                     \<lparr>xdata = arange (last (map Year (series d c)))
                                     (last (map Year (series d c)) + 31),
                      ydata = preds, label = c @ '' (forecast)'', linestyle = ''--''\<rparr>])"
proof (cases "arima_forecast ext (20, 2, 2) (map tfp (series d c)) 31")
  case (Inl e)
  then show ?thesis by (simp add: single_country_outcome [OF assms])
next
  case (Inr preds)
  then show ?thesis
    by (simp add: single_country_outcome [OF assms] country_lines_def Let_def)
qed

text \<open>
  A series of one observation and a series of three, both below the 23 observations
  of the model, are forecast with the values the fit returns.
\<close>

theorem series_length_is_not_checked_witness:
  "length (series short_df ''France'') < 23 \<and>
   \<not> isl (fst (predictor sample_ext short_state (names [''France'']))) \<and>
   length (series sample_df ''France'') < 23 \<and>
   \<not> isl (fst (predictor sample_ext sample_state (names [''France''])))"
proof -
  have len: "length (series short_df ''France'') < 23" "length (series sample_df ''France'') < 23"
    by (simp_all add: series_def short_df_def sample_df_def)
  have fits: "\<not> isl (arima_forecast sample_ext (20, 2, 2) (map tfp (series short_df ''France'')) 31)"
    "\<not> isl (arima_forecast sample_ext (20, 2, 2) (map tfp (series sample_df ''France'')) 31)"
    using sample_fit_returns(1) by (simp_all add: short_series short_fit fit_returns_def)
  from series_length_is_not_checked [OF short_loaded short_known]
       series_length_is_not_checked [OF sample_loaded sample_known(1)] len fits
  show ?thesis by simp
qed

subsection \<open>C6: known names, in the order of the list\<close>

text \<open>
  C6: for every list of at most three names of which at least one is known, and for
  which the statsmodels fit returns on each known name, the call returns a figure
  that holds the two lines of each known name and of no other, in the order in which
  the known names stand in the list.
\<close>

theorem known_names_in_input_order:
  assumes "loaded_df ext s = Some d" and "length ns \<le> 3" and "\<exists>c\<in>set ns. known d c"
    and "\<forall>c\<in>set ns. known d c \<longrightarrow> fit_returns ext d c"
  shows "\<exists>fig. fst (predictor ext s (names ns)) = Inr fig \<and>
           fig = concat (map (country_lines ext d) (filter (known d) ns)) \<and>
           map label (filter (\<lambda>l. linestyle l = ''-'') fig) = filter (known d) ns"
proof -
  from assms(3) have ne: "filter (known d) ns \<noteq> []"
    by (auto simp: filter_empty_conv)
  have sel: "\<forall>c\<in>set (filter (known d) ns). known d c" by simp
  from assms(4) have fits: "\<forall>c\<in>set (filter (known d) ns). fit_returns ext d c" by simp
  from plot_countries_ok [OF sel fits, of "[]"] assms(2) ne
  have "fst (predictor ext s (names ns)) =
          Inr (concat (map (country_lines ext d) (filter (known d) ns)))"
    by (simp add: predictor_names_loaded [OF assms(1)])
  with solid_labels [OF fits] show ?thesis by simp
qed

theorem known_names_in_input_order_witness:
  "\<exists>fig. fst (predictor sample_ext sample_state (names [''Germany'', ''Atlantis'', ''France''])) = Inr fig \<and>
         map label fig = [''Germany'', ''Germany (forecast)'', ''France'', ''France (forecast)'']"
proof -
  have len: "length [''Germany'', ''Atlantis'', ''France''] \<le> 3" by simp
  have k: "\<exists>c\<in>set [''Germany'', ''Atlantis'', ''France'']. known sample_df c"
    by (simp add: sample_known)
  have fits: "\<forall>c\<in>set [''Germany'', ''Atlantis'', ''France''].
                known sample_df c \<longrightarrow> fit_returns sample_ext sample_df c"
    by (simp add: sample_known sample_fit_returns)
  have labels:
    "map label (country_lines sample_ext sample_df ''Germany'') = [''Germany'', ''Germany (forecast)'']"
    "map label (country_lines sample_ext sample_df ''France'') = [''France'', ''France (forecast)'']"
    by (simp_all add: country_lines_def sample_ext_def sample_fit_def series_def sample_df_def
        Let_def)
  from known_names_in_input_order [OF sample_loaded len k fits]
  show ?thesis by (auto simp: sample_known labels)
qed

subsection \<open>C7: no known name\<close>

text \<open>
  C7: for every list in which no name is known (the empty list among them), the call
  fails with UnknownCountries, and every known country occurs in the message. The
  message joins the elements of a Python set, whose iteration visits every element.
\<close>

theorem unknown_countries_lists_every_known:
  assumes "loaded_df ext s = Some d" and "\<forall>c\<in>set ns. \<not> known d c"
    and "set (set_iter ext (unique (map Entity d))) = set (unique (map Entity d))"
  shows "\<exists>msg. fst (predictor ext s (names ns)) = Inl (ValueError msg) \<and>
           ValueError msg = UnknownCountries ext d \<and>
           (\<forall>c. known d c \<longrightarrow> sublist c msg)"
proof -
  define listing where "listing = join '', '' (set_iter ext (unique (map Entity d)))"
  define msg where "msg = ''No valid countries provided. Available countries are: '' @ listing"
  from assms(2) have "filter (known d) ns = []" by (simp add: filter_empty_conv)
  then have r: "fst (predictor ext s (names ns)) = Inl (ValueError msg)"
    by (simp add: predictor_names_loaded [OF assms(1)] UnknownCountries_def msg_def listing_def)
  have "sublist c msg" if "known d c" for c
  proof -
    from that assms(3) have "c \<in> set (set_iter ext (unique (map Entity d)))"
      by (simp add: known_def set_unique)
    then have "sublist c listing" unfolding listing_def by (rule join_mem)
    then obtain ps ss where "listing = ps @ c @ ss" by (auto simp: sublist_def)
    then have "msg = (''No valid countries provided. Available countries are: '' @ ps) @ c @ ss"
      by (simp add: msg_def)
    then show ?thesis unfolding sublist_def by blast
  qed
  with r show ?thesis by (auto simp: UnknownCountries_def msg_def listing_def)
qed

theorem unknown_countries_lists_every_known_witness:
  "\<exists>msg. fst (predictor sample_ext sample_state (names [''Atlantis'', ''Mu''])) = Inl (ValueError msg) \<and>
         msg = ''No valid countries provided. Available countries are: France, Germany'' \<and>
         sublist ''France'' msg \<and> sublist ''Germany'' msg"
proof -
  have u: "\<forall>c\<in>set [''Atlantis'', ''Mu'']. \<not> known sample_df c" by (simp add: sample_known)
  have it: "set (set_iter sample_ext (unique (map Entity sample_df))) =
            set (unique (map Entity sample_df))"
    by (simp add: sample_ext_def)
  from unknown_countries_lists_every_known [OF sample_loaded u it]
  obtain msg where
    r: "fst (predictor sample_ext sample_state (names [''Atlantis'', ''Mu''])) = Inl (ValueError msg)"
    and m: "ValueError msg = UnknownCountries sample_ext sample_df"
    and l: "\<forall>c. known sample_df c \<longrightarrow> sublist c msg"
    by blast
  from m have "msg = ''No valid countries provided. Available countries are: France, Germany''"
    by (simp add: sample_unknown_message)
  moreover from l have "sublist ''France'' msg" "sublist ''Germany'' msg"
    by (simp_all add: sample_known)
  ultimately show ?thesis using r by blast
qed

subsection \<open>C8: repeated calls of the fit\<close>

text \<open>
  C8 concerns the numerical estimation inside statsmodels: whether two fits of the same
  series yield the same floating-point forecast. In this model the fit is a function
  of the order, the series and the number of steps, which the method passes as the
  constants (20, 2, 2) and 31; that the library behaves as a function is what the
  claim asserts, and it cannot be derived from the method. No theorem is stated for it.
\<close>

subsection \<open>C9: the data frame is not changed\<close>

text \<open>
  C9: a call does not change the loaded data frame. For every argument, whether the
  call returns a figure or raises, \<open>self.df\<close> holds the same table after the call as
  before it. (On an instance without a table the call first loads one through
  \<open>get_data\<close>, see \<open>predictor_lazy_load\<close>.)
\<close>

theorem predictor_keeps_loaded_dataframe:
  assumes "df s = Some d"
  shows "df (snd (predictor ext s arg)) = Some d"
  using assms by (cases arg) (simp_all add: predictor_state df_filterwarnings)

theorem predictor_keeps_loaded_dataframe_witness:
  "fst (predictor sample_ext sample_state (names [''Atlantis''])) =
     Inl (UnknownCountries sample_ext sample_df) \<and>
   df (snd (predictor sample_ext sample_state (names [''Atlantis'']))) = Some sample_df \<and>
   fst (predictor sample_ext sample_state (names [''France''])) =
     Inr (country_lines sample_ext sample_df ''France'') \<and>
   df (snd (predictor sample_ext sample_state (names [''France'']))) = Some sample_df"
proof -
  have l: "df sample_state = Some sample_df" by (simp add: sample_state_def)
  have err: "fst (predictor sample_ext sample_state (names [''Atlantis''])) =
               Inl (UnknownCountries sample_ext sample_df)"
    by (simp add: predictor_names_loaded [OF sample_loaded] sample_known)
  from err sample_run_France predictor_keeps_loaded_dataframe [OF l, of sample_ext]
  show ?thesis by simp
qed

subsection \<open>C10: the warning filter\<close>

text \<open>
  C10: every call, whatever its argument and whatever its outcome, leaves the
  catch-all \<open>ignore\<close> entry at the head of \<open>warnings.filters\<close>, where it overrides every
  other entry: the method installs it before the type check and never removes it.
\<close>

theorem predictor_installs_ignore_filter:
  "warning_filters (snd (predictor ext s arg)) =
     (''ignore'', None, ''Warning'', None, 0)
       # remove1 (''ignore'', None, ''Warning'', None, 0) (warning_filters s)"
  by (cases arg) (simp_all add: predictor_state get_data_filters filterwarnings_def Let_def)

text \<open>A call that fails the type check and a call with an unknown name.\<close>

theorem predictor_installs_ignore_filter_witness:
  "fst (predictor sample_ext unloaded_state (PyInt 7)) = Inl InvalidArgument \<and>
   warning_filters (snd (predictor sample_ext unloaded_state (PyInt 7))) =
     [(''ignore'', None, ''Warning'', None, 0)] \<and>
   warning_filters (snd (predictor sample_ext sample_state (names [''Atlantis'']))) =
     [(''ignore'', None, ''Warning'', None, 0)]"
  using predictor_installs_ignore_filter [of sample_ext unloaded_state "PyInt 7"]
        predictor_installs_ignore_filter [of sample_ext sample_state "names [''Atlantis'']"]
  by (simp add: predictor_def InvalidArgument_def unloaded_state_def sample_state_def)

end
